theory Spec2Isabelle
  imports Main "HOL-Library.Word" "HOL-Library.Sublist"
begin

section \<open>Strings, thrown values and remote comments\<close>

text \<open>
  A JavaScript string is a sequence of UTF-16 code units; \<^verbatim>\<open>.length\<close> counts
  code units and \<^verbatim>\<open>.includes\<close> searches for a contiguous run of them. The literals
  of \<^verbatim>\<open>src/comment-pr.ts\<close> are ASCII, so each of their characters is one code unit.
\<close>

type_synonym code_unit = "16 word"
type_synonym js_string = "code_unit list"

definition utf16 :: "string \<Rightarrow> js_string" where
  "utf16 s = map (\<lambda>c. of_nat (of_char c)) s"

text \<open>\<^verbatim>\<open>s.includes(t)\<close>: \<open>t\<close> starts at some position of \<open>s\<close>.\<close>

fun js_includes :: "'a list \<Rightarrow> 'a list \<Rightarrow> bool" where
  "js_includes [] t = (t = [])"
| "js_includes (x # xs) t = (prefix t (x # xs) \<or> js_includes xs t)"

text \<open>
  What a \<^verbatim>\<open>catch\<close> clause can receive, by the two \<^verbatim>\<open>instanceof\<close> tests the handler
  makes and the fields it reads:
  \<^item> \<open>RequestError\<close>: an instance of the class that line 5 imports, the one of the
    package \<^verbatim>\<open>@octokit/request-error\<close> that \<^verbatim>\<open>package.json\<close> requires at \<^verbatim>\<open>^3.0.3\<close>, with its
    status and message;
  \<^item> \<open>HttpError\<close>: the error with which the API client rejects a request that the
    server answered with an error status. The client is built from \<^verbatim>\<open>@actions/github\<close>
    (\<^verbatim>\<open>^5.1.1\<close>), whose request layer brings its own, older copy of the request-error
    package: the value is an \<^verbatim>\<open>Error\<close> with a status and a message, and it is no instance
    of the class that line 5 imports;
  \<^item> \<open>Error\<close>: any other \<^verbatim>\<open>Error\<close>, with its message;
  \<^item> \<open>NonError\<close>: a value that is no \<^verbatim>\<open>Error\<close> at all.
\<close>

datatype thrown =
    RequestError int js_string
  | HttpError int js_string
  | Error js_string
  | NonError

datatype 'a outcome = Raise thrown | Return 'a

text \<open>A comment of the remote collection: a numeric id and a body that may be absent.\<close>

record comment =
  comment_id :: int
  body :: "js_string option"

text \<open>
  One request of the paginating iterator either rejects or yields a page of comments.
  The retry plug-in sits below this level: a response is what the client hands to the
  caller once its retries are over.
\<close>

datatype response = Throws thrown | Page "comment list"

record pull_request_payload =
  number :: int

text \<open>
  Everything \<^verbatim>\<open>commentPr\<close> reads from its surroundings: \<^verbatim>\<open>process.exitCode\<close>,
  \<^verbatim>\<open>github.context\<close> (repository coordinates and the pull-request payload, absent
  outside a pull request), and how the remote API answers: the successive pages of
  \<^verbatim>\<open>listComments\<close>, and whether \<^verbatim>\<open>updateComment\<close> and \<^verbatim>\<open>createComment\<close> reject.
\<close>

record world =
  exitCode :: "int option"
  owner :: js_string
  repo :: js_string
  pull_request :: "pull_request_payload option"
  listComments :: "response list"
  updateComment :: "thrown option"
  createComment :: "thrown option"

text \<open>
  Of the configuration \<^verbatim>\<open>commentPr\<close> reads one field, and only compares it with two
  string literals; a value that is neither stands for every other setting.
\<close>

record ConfigurationOptions =
  comment_summary_in_pr :: js_string

text \<open>The observable effects, in the order they happen.\<close>

datatype event =
    SetOutput js_string js_string
  | Warning js_string
  | Debug js_string
  | ListComments js_string js_string int nat
  | UpdateComment js_string js_string int js_string
  | CreateComment js_string js_string int js_string

fun is_network :: "event \<Rightarrow> bool" where
  "is_network (ListComments _ _ _ _) = True"
| "is_network (UpdateComment _ _ _ _) = True"
| "is_network (CreateComment _ _ _ _) = True"
| "is_network _ = False"

fun is_write :: "event \<Rightarrow> bool" where
  "is_write (UpdateComment _ _ _ _) = True"
| "is_write (CreateComment _ _ _ _) = True"
| "is_write _ = False"

fun is_list :: "event \<Rightarrow> bool" where
  "is_list (ListComments _ _ _ _) = True"
| "is_list _ = False"

fun is_warning :: "event \<Rightarrow> bool" where
  "is_warning (Warning _) = True"
| "is_warning _ = False"

fun is_output :: "event \<Rightarrow> bool" where
  "is_output (SetOutput _ _) = True"
| "is_output _ = False"

section \<open>The constants of \<^verbatim>\<open>comment-pr.ts\<close>\<close>

definition COMMENT_MARKER :: js_string where
  "COMMENT_MARKER = utf16 ''<!-- dependency-review-pr-comment-marker -->''"

definition MAX_COMMENT_LENGTH :: nat where
  "MAX_COMMENT_LENGTH = 65536"

text \<open>\<^verbatim>\<open>core.ExitCode.Failure\<close> of the actions toolkit.\<close>

definition ExitCode_Failure :: int where
  "ExitCode_Failure = 1"

text \<open>The two line feeds between the text and the marker in both template literals.\<close>

definition separator :: js_string where
  "separator = [10, 10]"

section \<open>\<^verbatim>\<open>findCommentByMarker\<close>\<close>

text \<open>The callback given to \<^verbatim>\<open>comments.find\<close>: \<^verbatim>\<open>comment.body?.includes(marker)\<close>.\<close>

definition body_includes :: "js_string \<Rightarrow> comment \<Rightarrow> bool" where
  "body_includes commentBodyIncludes c =
     (case body c of None \<Rightarrow> False | Some b \<Rightarrow> js_includes b commentBodyIncludes)"

text \<open>
  The \<^verbatim>\<open>for await\<close> loop over the iterator. Each turn asks the iterator for the next
  page, which is one request (page numbers count from 1); the loop returns from inside
  on the first page holding a match, and a rejected request leaves the loop as an
  exception.
\<close>

fun commentsIterator ::
  "js_string \<Rightarrow> js_string \<Rightarrow> int \<Rightarrow> js_string \<Rightarrow> nat \<Rightarrow> response list
     \<Rightarrow> int option outcome \<times> event list" where
  "commentsIterator ow rp n marker k [] = (Return None, [])"
| "commentsIterator ow rp n marker k (Throws e # rest) =
     (Raise e, [ListComments ow rp n k])"
| "commentsIterator ow rp n marker k (Page comments # rest) =
     (case find (body_includes marker) comments of
        Some existingComment \<Rightarrow>
          (Return (Some (comment_id existingComment)), [ListComments ow rp n k])
      | None \<Rightarrow>
          (case commentsIterator ow rp n marker (Suc k) rest of
             (r, evs) \<Rightarrow> (r, ListComments ow rp n k # evs)))"

text \<open>
  Reading \<^verbatim>\<open>.number\<close> of an absent pull request is a \<^verbatim>\<open>TypeError\<close>, an \<^verbatim>\<open>Error\<close>
  whose message is the engine's.
\<close>

definition TypeError_message :: js_string where
  "TypeError_message = utf16 ''Cannot read properties of undefined (reading 'number')''"

definition findCommentByMarker :: "world \<Rightarrow> js_string \<Rightarrow> int option outcome \<times> event list" where
  "findCommentByMarker w commentBodyIncludes =
     (case pull_request w of
        None \<Rightarrow> (Raise (Error TypeError_message), [])
      | Some pr \<Rightarrow>
          commentsIterator (owner w) (repo w) (number pr) commentBodyIncludes 1 (listComments w))"

section \<open>\<^verbatim>\<open>commentPr\<close>\<close>

text \<open>
  The \<^verbatim>\<open>catch\<close> clause: which warning a thrown value produces. The first test,
  \<^verbatim>\<open>error instanceof RequestError && error.status === 403\<close>, holds of no \<open>HttpError\<close>,
  whatever its status; the second, \<^verbatim>\<open>error instanceof Error\<close>, holds of it.
\<close>

fun catch_warning :: "thrown \<Rightarrow> js_string" where
  "catch_warning (RequestError status message) =
     (if status = 403
      then utf16 ''Unable to write summary to pull-request. Make sure you are giving this workflow the permission 'pull-requests: write'.''
      else utf16 ''Unable to comment summary to pull-request, received error: '' @ message)"
| "catch_warning (HttpError status message) =
     utf16 ''Unable to comment summary to pull-request, received error: '' @ message"
| "catch_warning (Error message) =
     utf16 ''Unable to comment summary to pull-request, received error: '' @ message"
| "catch_warning NonError =
     utf16 ''Unable to comment summary to pull-request: Unexpected fatal error''"

text \<open>
  The body of the \<^verbatim>\<open>try\<close> block: the lookup, then one write. The branch is taken on
  the truthiness of the id returned, and \<^verbatim>\<open>undefined\<close> and \<^verbatim>\<open>0\<close> are both falsy.
\<close>

definition try_block ::
  "world \<Rightarrow> pull_request_payload \<Rightarrow> js_string \<Rightarrow> unit outcome \<times> event list" where
  "try_block w pr commentBody =
     (case findCommentByMarker w COMMENT_MARKER of
        (Raise e, evs) \<Rightarrow> (Raise e, evs)
      | (Return existingCommentId, evs) \<Rightarrow>
          (let create =
                 (case createComment w of Some e \<Rightarrow> Raise e | None \<Rightarrow> Return (),
                  evs @ [CreateComment (owner w) (repo w) (number pr) commentBody])
           in
             (case existingCommentId of
                None \<Rightarrow> create
              | Some i \<Rightarrow>
                  if i = 0 then create
                  else
                    (case updateComment w of Some e \<Rightarrow> Raise e | None \<Rightarrow> Return (),
                     evs @ [UpdateComment (owner w) (repo w) i commentBody]))))"

text \<open>
  \<^verbatim>\<open>commentPr(summary, config, minComment)\<close>; \<open>summary\<close> stands for the text that
  \<^verbatim>\<open>summary.stringify()\<close> returns.
\<close>

definition commentPr ::
  "world \<Rightarrow> js_string \<Rightarrow> ConfigurationOptions \<Rightarrow> js_string \<Rightarrow> unit outcome \<times> event list" where
  "commentPr w summary config minComment =
     (let commentContent = summary;
          output = [SetOutput (utf16 ''comment-content'') commentContent]
      in
        if \<not> (comment_summary_in_pr config = utf16 ''always'' \<or>
               (comment_summary_in_pr config = utf16 ''on-failure'' \<and>
                exitCode w = Some ExitCode_Failure))
        then (Return (), output)
        else
          (case pull_request w of
             None \<Rightarrow>
               (Return (),
                output @
                [Warning (utf16 ''Not in the context of a pull request. Skipping comment creation.'')])
           | Some pr \<Rightarrow>
               (let long = (length (commentContent @ separator @ COMMENT_MARKER) \<ge> MAX_COMMENT_LENGTH);
                    debug =
                      (if long
                       then [Debug (utf16 ''The comment was too big for the GitHub API. Falling back on a minimum comment'')]
                       else []);
                    commentBody =
                      (if long then minComment @ separator @ COMMENT_MARKER
                       else commentContent @ separator @ COMMENT_MARKER)
                in
                  (case try_block w pr commentBody of
                     (Return u, evs) \<Rightarrow> (Return (), output @ debug @ evs)
                   | (Raise error, evs) \<Rightarrow>
                       (Return (), output @ debug @ evs @ [Warning (catch_warning error)])))))"

section \<open>The specification's own formulations\<close>

text \<open>
  The policy gate as the specification words it: true iff (policy is \<^verbatim>\<open>always\<close>, or
  policy is \<^verbatim>\<open>on-failure\<close> and the run failed) and the run is in a pull-request context.
\<close>

definition shouldComment :: "js_string \<Rightarrow> bool \<Rightarrow> bool \<Rightarrow> bool" where
  "shouldComment policy runFailed inPullRequestContext =
     ((policy = utf16 ''always'' \<or> (policy = utf16 ''on-failure'' \<and> runFailed)) \<and>
      inPullRequestContext)"

text \<open>
  The submitted body as the specification words it: rendered body, separator, marker;
  if that is 65536 code units or longer, fallback body, separator, marker.
\<close>

definition CommentBody :: "js_string \<Rightarrow> js_string \<Rightarrow> js_string" where
  "CommentBody renderedBody fallbackBody =
     (if length (renderedBody @ [10, 10] @ COMMENT_MARKER) \<ge> 65536
      then fallbackBody @ [10, 10] @ COMMENT_MARKER
      else renderedBody @ [10, 10] @ COMMENT_MARKER)"

text \<open>
  A comment matches when its body is present and contains the marker as a contiguous
  sublist; a comment without body does not match.
\<close>

definition has_marker :: "js_string \<Rightarrow> comment \<Rightarrow> bool" where
  "has_marker marker c = (case body c of None \<Rightarrow> False | Some b \<Rightarrow> sublist marker b)"

section \<open>Sample invocations\<close>

text \<open>
  A run inside pull request 7 of \<^verbatim>\<open>octo/demo\<close>. The remote collection has three
  pages: the first holds a comment without body and an unmarked comment, the second
  the marked comment 42, the third another marked comment, 43.
\<close>

definition marked_body :: js_string where
  "marked_body = utf16 ''old report'' @ separator @ COMMENT_MARKER"

definition sample_pages :: "comment list list" where
  "sample_pages =
     [[\<lparr>comment_id = 40, body = None\<rparr>, \<lparr>comment_id = 41, body = Some (utf16 ''LGTM'')\<rparr>],
      [\<lparr>comment_id = 42, body = Some marked_body\<rparr>],
      [\<lparr>comment_id = 43, body = Some marked_body\<rparr>]]"

definition sample_world :: world where
  "sample_world =
     \<lparr>exitCode = None, owner = utf16 ''octo'', repo = utf16 ''demo'',
      pull_request = Some \<lparr>number = 7\<rparr>,
      listComments = map Page sample_pages,
      updateComment = None, createComment = None\<rparr>"

text \<open>The same run on a pull request without comments: one empty page.\<close>

definition fresh_world :: world where
  "fresh_world = sample_world\<lparr>listComments := [Page []]\<rparr>"

text \<open>The same run started by an event that is no pull request.\<close>

definition push_world :: world where
  "push_world = sample_world\<lparr>pull_request := None\<rparr>"

text \<open>The same run when the server answers the first request for the comment list with 500.\<close>

definition broken_world :: world where
  "broken_world =
     sample_world\<lparr>listComments := [Throws (HttpError 500 (utf16 ''Server Error''))]\<rparr>"

text \<open>
  The same run when the token may read but not write: the server answers the create
  request with 403.
\<close>

definition forbidden_world :: world where
  "forbidden_world =
     fresh_world\<lparr>createComment := Some (HttpError 403 (utf16 ''Resource not accessible by integration''))\<rparr>"

text \<open>The same run when the only comment is marked and has the id 0.\<close>

definition zero_world :: world where
  "zero_world =
     sample_world\<lparr>listComments := [Page [\<lparr>comment_id = 0, body = Some marked_body\<rparr>]]\<rparr>"

text \<open>The same run when the update is rejected with a value that is no \<^verbatim>\<open>Error\<close>.\<close>

definition throwing_world :: world where
  "throwing_world = sample_world\<lparr>updateComment := Some NonError\<rparr>"

text \<open>
  Reports of 65489, 65490 and 70000 code units: with the separator and the marker the
  first stays one short of the ceiling, the second reaches it.
\<close>

definition short_report :: js_string where
  "short_report = replicate 65489 97"

definition boundary_report :: js_string where
  "boundary_report = replicate 65490 97"

definition long_report :: js_string where
  "long_report = replicate 70000 97"

definition always :: ConfigurationOptions where
  "always = \<lparr>comment_summary_in_pr = utf16 ''always''\<rparr>"

definition on_failure :: ConfigurationOptions where
  "on_failure = \<lparr>comment_summary_in_pr = utf16 ''on-failure''\<rparr>"

definition never :: ConfigurationOptions where
  "never = \<lparr>comment_summary_in_pr = utf16 ''never''\<rparr>"

section \<open>Basic facts\<close>

lemma js_includes_sublist: "js_includes s t = sublist t s"
  by (induction s) (simp_all add: sublist_Cons_right)

lemma length_utf16: "length (utf16 s) = length s"
  by (simp add: utf16_def)

section \<open>The lookup loop\<close>

lemma find_append_cases:
  "find P (xs @ ys) = (case find P xs of None \<Rightarrow> find P ys | Some x \<Rightarrow> Some x)"
  by (induction xs) simp_all

lemma body_includes_has_marker: "body_includes marker c = has_marker marker c"
  by (simp add: body_includes_def has_marker_def js_includes_sublist split: option.splits)

lemma body_includes_eq: "body_includes marker = has_marker marker"
  by (rule ext) (rule body_includes_has_marker)

lemma commentsIterator_pages:
  "fst (commentsIterator ow rp n marker k (map Page pss)) =
     Return (map_option comment_id (find (has_marker marker) (concat pss)))"
proof (induction pss arbitrary: k)
  case Nil
  show ?case by simp
next
  case (Cons cs pss)
  show ?case
  proof (cases "find (has_marker marker) cs")
    case None
    with Cons [of "Suc k"] show ?thesis
      by (simp add: find_append_cases body_includes_eq case_prod_beta)
  next
    case (Some c)
    then show ?thesis
      by (simp add: find_append_cases body_includes_eq)
  qed
qed

lemma commentsIterator_events:
  "ev \<in> set (snd (commentsIterator ow rp n marker k ps)) \<Longrightarrow>
     \<exists>j. ev = ListComments ow rp n j \<and> k \<le> j \<and> j < k + length ps"
proof (induction ow rp n marker k ps rule: commentsIterator.induct)
  case (1 ow rp n marker k)
  then show ?case by simp
next
  case (2 ow rp n marker k e rest)
  then show ?case by simp
next
  case (3 ow rp n marker k comments rest)
  show ?case
  proof (cases "find (body_includes marker) comments")
    case None
    with 3 show ?thesis
      by (fastforce split: prod.splits)
  next
    case (Some c)
    with 3 show ?thesis by simp
  qed
qed

lemma commentsIterator_short_circuit:
  "i < length ps \<Longrightarrow> ps ! i = Page cs \<Longrightarrow> find (body_includes marker) cs \<noteq> None \<Longrightarrow>
   ListComments ow' rp' n' j \<in> set (snd (commentsIterator ow rp n marker k ps)) \<Longrightarrow>
   j \<le> k + i"
proof (induction ow rp n marker k ps arbitrary: i rule: commentsIterator.induct)
  case (1 ow rp n marker k)
  then show ?case by simp
next
  case (2 ow rp n marker k e rest)
  then show ?case by simp
next
  case (3 ow rp n marker k comments rest)
  show ?case
  proof (cases "find (body_includes marker) comments")
    case (Some c)
    with 3 show ?thesis by simp
  next
    case None
    show ?thesis
    proof (cases i)
      case 0
      with 3 None show ?thesis by simp
    next
      case (Suc i')
      from 3(5) None
      have "j = k \<or> ListComments ow' rp' n' j \<in> set (snd (commentsIterator ow rp n marker (Suc k) rest))"
        by (auto split: prod.splits)
      then show ?thesis
      proof
        assume "j = k" then show ?thesis by simp
      next
        assume a: "ListComments ow' rp' n' j \<in> set (snd (commentsIterator ow rp n marker (Suc k) rest))"
        from 3(2,3) Suc have "i' < length rest" "rest ! i' = Page cs" by simp_all
        from 3(1) [OF None this 3(4) a] Suc show ?thesis by simp
      qed
    qed
  qed
qed

lemma commentsIterator_Raise_events:
  "fst (commentsIterator ow rp n marker k ps) = Raise e \<Longrightarrow>
     snd (commentsIterator ow rp n marker k ps) \<noteq> []"
  by (induction ow rp n marker k ps rule: commentsIterator.induct)
     (auto split: option.splits prod.splits)

section \<open>The shape of an invocation\<close>

lemma try_block_fst_snd:
  "try_block w pr b =
     (case fst (findCommentByMarker w COMMENT_MARKER) of
        Raise e \<Rightarrow> (Raise e, snd (findCommentByMarker w COMMENT_MARKER))
      | Return None \<Rightarrow>
          (case createComment w of Some e \<Rightarrow> Raise e | None \<Rightarrow> Return (),
           snd (findCommentByMarker w COMMENT_MARKER) @
           [CreateComment (owner w) (repo w) (number pr) b])
      | Return (Some i) \<Rightarrow>
          if i = 0
          then (case createComment w of Some e \<Rightarrow> Raise e | None \<Rightarrow> Return (),
                snd (findCommentByMarker w COMMENT_MARKER) @
                [CreateComment (owner w) (repo w) (number pr) b])
          else (case updateComment w of Some e \<Rightarrow> Raise e | None \<Rightarrow> Return (),
                snd (findCommentByMarker w COMMENT_MARKER) @
                [UpdateComment (owner w) (repo w) i b]))"
  by (simp add: try_block_def Let_def split: prod.splits outcome.splits option.splits)

lemma findCommentByMarker_events:
  "ev \<in> set (snd (findCommentByMarker w marker)) \<Longrightarrow> is_list ev"
  by (auto simp: findCommentByMarker_def split: option.splits dest: commentsIterator_events)

lemma findCommentByMarker_Raise_events:
  "pull_request w = Some pr \<Longrightarrow> fst (findCommentByMarker w marker) = Raise e \<Longrightarrow>
     snd (findCommentByMarker w marker) \<noteq> []"
  by (simp add: findCommentByMarker_def commentsIterator_Raise_events)

lemma filter_lists:
  assumes "\<And>ev. ev \<in> set evs \<Longrightarrow> is_list ev"
  shows "filter is_network evs = evs" and "filter is_write evs = []"
    and "filter is_warning evs = []" and "filter is_output evs = []"
proof -
  have *: "is_network ev \<and> \<not> is_write ev \<and> \<not> is_warning ev \<and> \<not> is_output ev"
    if "is_list ev" for ev
    using that by (cases ev) simp_all
  show "filter is_network evs = evs"
    using assms * by (simp add: filter_id_conv)
  show "filter is_write evs = []" "filter is_warning evs = []" "filter is_output evs = []"
    using assms * by (simp_all add: filter_empty_conv)
qed

lemmas lookup_filters =
  filter_lists [of "snd (findCommentByMarker w marker)", OF findCommentByMarker_events] for w marker

text \<open>The trace and result of an invocation that passes both checks.\<close>

lemma commentPr_pass:
  assumes "shouldComment (comment_summary_in_pr config) (exitCode w = Some ExitCode_Failure) True"
    and "pull_request w = Some pr"
  shows "commentPr w summary config minComment =
     (Return (),
      SetOutput (utf16 ''comment-content'') summary #
      (if 65536 \<le> length (summary @ [10, 10] @ COMMENT_MARKER)
       then [Debug (utf16 ''The comment was too big for the GitHub API. Falling back on a minimum comment'')]
       else []) @
      snd (try_block w pr (CommentBody summary minComment)) @
      (case fst (try_block w pr (CommentBody summary minComment)) of
         Raise e \<Rightarrow> [Warning (catch_warning e)]
       | Return u \<Rightarrow> []))"
  using assms
  by (simp add: commentPr_def shouldComment_def CommentBody_def separator_def
      MAX_COMMENT_LENGTH_def Let_def split: prod.splits outcome.splits)

lemma commentPr_policy_skip:
  assumes "\<not> shouldComment (comment_summary_in_pr config) (exitCode w = Some ExitCode_Failure) True"
  shows "commentPr w summary config minComment =
     (Return (), [SetOutput (utf16 ''comment-content'') summary])"
  using assms by (simp add: commentPr_def shouldComment_def)

lemma commentPr_context_skip:
  assumes "shouldComment (comment_summary_in_pr config) (exitCode w = Some ExitCode_Failure) True"
    and "pull_request w = None"
  shows "commentPr w summary config minComment =
     (Return (),
      [SetOutput (utf16 ''comment-content'') summary,
       Warning (utf16 ''Not in the context of a pull request. Skipping comment creation.'')])"
  using assms by (simp add: commentPr_def shouldComment_def)

lemma try_block_network:
  assumes "pull_request w = Some pr"
  shows "filter is_network (snd (try_block w pr b)) \<noteq> []"
proof (cases "fst (findCommentByMarker w COMMENT_MARKER)")
  case (Raise e)
  with findCommentByMarker_Raise_events [OF assms Raise] show ?thesis
    by (simp add: try_block_fst_snd lookup_filters)
next
  case (Return r)
  then show ?thesis
    by (simp add: try_block_fst_snd split: option.splits)
qed

lemma try_block_writes:
  "filter is_write (snd (try_block w pr b)) =
     (case fst (findCommentByMarker w COMMENT_MARKER) of
        Raise e \<Rightarrow> []
      | Return None \<Rightarrow> [CreateComment (owner w) (repo w) (number pr) b]
      | Return (Some i) \<Rightarrow>
          if i = 0 then [CreateComment (owner w) (repo w) (number pr) b]
          else [UpdateComment (owner w) (repo w) i b])"
  by (simp add: try_block_fst_snd lookup_filters split: outcome.splits option.splits)

lemma try_block_quiet:
  "filter is_warning (snd (try_block w pr b)) = []"
  "filter is_output (snd (try_block w pr b)) = []"
  by (simp_all add: try_block_fst_snd lookup_filters split: outcome.splits option.splits)

lemma try_block_result:
  "fst (try_block w pr b) =
     (case fst (findCommentByMarker w COMMENT_MARKER) of
        Raise e \<Rightarrow> Raise e
      | Return None \<Rightarrow> (case createComment w of Some e \<Rightarrow> Raise e | None \<Rightarrow> Return ())
      | Return (Some i) \<Rightarrow>
          if i = 0 then (case createComment w of Some e \<Rightarrow> Raise e | None \<Rightarrow> Return ())
          else (case updateComment w of Some e \<Rightarrow> Raise e | None \<Rightarrow> Return ()))"
  by (simp add: try_block_fst_snd split: outcome.splits option.splits)

lemma commentPr_returns: "fst (commentPr w summary config minComment) = Return ()"
  by (simp add: commentPr_def Let_def split: option.splits prod.splits outcome.splits)

section \<open>Marker lookup\<close>

lemma sample_marks:
  "has_marker COMMENT_MARKER \<lparr>comment_id = i, body = Some marked_body\<rparr>"
  "\<not> has_marker COMMENT_MARKER \<lparr>comment_id = i, body = None\<rparr>"
  "\<not> has_marker COMMENT_MARKER \<lparr>comment_id = i, body = Some (utf16 ''LGTM'')\<rparr>"
  by (simp_all add: has_marker_def marked_body_def COMMENT_MARKER_def utf16_def sublist_code)

lemma sample_lookup:
  "findCommentByMarker sample_world COMMENT_MARKER =
     (Return (Some 42),
      [ListComments (utf16 ''octo'') (utf16 ''demo'') 7 1,
       ListComments (utf16 ''octo'') (utf16 ''demo'') 7 2])"
  by (simp add: findCommentByMarker_def sample_world_def sample_pages_def body_includes_eq sample_marks)

text \<open>
  C4. When every page of the collection is delivered, \<^verbatim>\<open>findCommentByMarker\<close> returns
  the id of the first comment, in the order of the pages and within each page, whose
  body is present and contains the marker; it returns absent when no comment of any
  page matches. A comment without body never matches.
\<close>

theorem findCommentByMarker_first_match:
  assumes "pull_request w = Some pr" and "listComments w = map Page pss"
  shows "fst (findCommentByMarker w marker) =
     Return (map_option comment_id (find (has_marker marker) (concat pss)))"
  using assms by (simp add: findCommentByMarker_def commentsIterator_pages)

theorem findCommentByMarker_first_match_witness:
  "pull_request sample_world = Some \<lparr>number = 7\<rparr> \<and>
   listComments sample_world = map Page sample_pages \<and>
   fst (findCommentByMarker sample_world COMMENT_MARKER) = Return (Some 42) \<and>
   pull_request fresh_world = Some \<lparr>number = 7\<rparr> \<and>
   listComments fresh_world = map Page [[]] \<and>
   fst (findCommentByMarker fresh_world COMMENT_MARKER) = Return None"
  using findCommentByMarker_first_match [of sample_world "\<lparr>number = 7\<rparr>" sample_pages COMMENT_MARKER]
    findCommentByMarker_first_match [of fresh_world "\<lparr>number = 7\<rparr>" "[[]]" COMMENT_MARKER]
  by (simp add: sample_world_def fresh_world_def sample_pages_def sample_marks)

text \<open>
  C9. Once a delivered page holds a comment whose body includes the marker, no page
  after it is requested: every request \<^verbatim>\<open>findCommentByMarker\<close> makes is for that page
  or an earlier one (pages count from 1, so the page at index \<open>i\<close> is page \<open>i + 1\<close>).
\<close>

theorem findCommentByMarker_short_circuit:
  assumes "i < length (listComments w)" and "listComments w ! i = Page cs"
    and "\<exists>c \<in> set cs. has_marker marker c"
    and "ListComments ow rp n j \<in> set (snd (findCommentByMarker w marker))"
  shows "j \<le> Suc i"
proof -
  from assms(3) have m: "find (body_includes marker) cs \<noteq> None"
    by (auto simp: find_None_iff body_includes_eq)
  from assms(4) obtain pr where pr: "pull_request w = Some pr"
    by (auto simp: findCommentByMarker_def split: option.splits)
  with assms(4) have "ListComments ow rp n j \<in>
      set (snd (commentsIterator (owner w) (repo w) (number pr) marker 1 (listComments w)))"
    by (simp add: findCommentByMarker_def)
  from commentsIterator_short_circuit [OF assms(1,2) m this] show ?thesis by simp
qed

theorem findCommentByMarker_short_circuit_witness:
  "1 < length (listComments sample_world) \<and>
   listComments sample_world ! 1 = Page [\<lparr>comment_id = 42, body = Some marked_body\<rparr>] \<and>
   (\<exists>c \<in> set [\<lparr>comment_id = 42, body = Some marked_body\<rparr>]. has_marker COMMENT_MARKER c) \<and>
   ListComments (utf16 ''octo'') (utf16 ''demo'') 7 2
     \<in> set (snd (findCommentByMarker sample_world COMMENT_MARKER)) \<and>
   (2::nat) \<le> Suc 1"
proof -
  have h1: "1 < length (listComments sample_world)"
    and h2: "listComments sample_world ! 1 = Page [\<lparr>comment_id = 42, body = Some marked_body\<rparr>]"
    by (simp_all add: sample_world_def sample_pages_def)
  have h3: "\<exists>c \<in> set [\<lparr>comment_id = 42, body = Some marked_body\<rparr>]. has_marker COMMENT_MARKER c"
    by (simp add: sample_marks)
  have h4: "ListComments (utf16 ''octo'') (utf16 ''demo'') 7 2
     \<in> set (snd (findCommentByMarker sample_world COMMENT_MARKER))"
    by (simp add: sample_lookup)
  from findCommentByMarker_short_circuit [OF h1 h2 h3 h4] h1 h2 h3 h4 show ?thesis by simp
qed

section \<open>Facts about the sample invocations\<close>

lemma gate_samples:
  "shouldComment (comment_summary_in_pr always) rf True"
  "shouldComment (comment_summary_in_pr on_failure) rf True = rf"
  "\<not> shouldComment (comment_summary_in_pr never) rf True"
  by (simp_all add: shouldComment_def always_def on_failure_def never_def utf16_def)

lemma sample_fields:
  "pull_request sample_world = Some \<lparr>number = 7\<rparr>"
  "pull_request fresh_world = Some \<lparr>number = 7\<rparr>"
  "pull_request broken_world = Some \<lparr>number = 7\<rparr>"
  "pull_request forbidden_world = Some \<lparr>number = 7\<rparr>"
  "pull_request zero_world = Some \<lparr>number = 7\<rparr>"
  "pull_request push_world = None"
  "pull_request throwing_world = Some \<lparr>number = 7\<rparr>"
  "exitCode sample_world = None"
  "exitCode push_world = None"
  by (simp_all add: sample_world_def fresh_world_def broken_world_def forbidden_world_def
      zero_world_def push_world_def throwing_world_def)

lemma length_COMMENT_MARKER: "length COMMENT_MARKER = 44"
  by (simp add: COMMENT_MARKER_def utf16_def)

lemma report_lengths:
  "length (short_report @ [10, 10] @ COMMENT_MARKER) = 65535"
  "length (boundary_report @ [10, 10] @ COMMENT_MARKER) = 65536"
  "length (long_report @ [10, 10] @ COMMENT_MARKER) = 70046"
  by (simp_all add: short_report_def boundary_report_def long_report_def length_COMMENT_MARKER)

lemma sample_bodies:
  "CommentBody short_report m = short_report @ [10, 10] @ COMMENT_MARKER"
  "CommentBody boundary_report m = m @ [10, 10] @ COMMENT_MARKER"
  "CommentBody long_report m = m @ [10, 10] @ COMMENT_MARKER"
  unfolding CommentBody_def report_lengths by simp_all

lemma plain_body:
  "CommentBody (utf16 ''report'') m = utf16 ''report'' @ [10, 10] @ COMMENT_MARKER"
  by (simp add: CommentBody_def length_COMMENT_MARKER length_utf16)

lemma sample_lookups:
  "findCommentByMarker fresh_world COMMENT_MARKER =
     (Return None, [ListComments (utf16 ''octo'') (utf16 ''demo'') 7 1])"
  "findCommentByMarker forbidden_world COMMENT_MARKER =
     (Return None, [ListComments (utf16 ''octo'') (utf16 ''demo'') 7 1])"
  "findCommentByMarker broken_world COMMENT_MARKER =
     (Raise (HttpError 500 (utf16 ''Server Error'')),
      [ListComments (utf16 ''octo'') (utf16 ''demo'') 7 1])"
  "findCommentByMarker zero_world COMMENT_MARKER =
     (Return (Some 0), [ListComments (utf16 ''octo'') (utf16 ''demo'') 7 1])"
  by (simp_all add: findCommentByMarker_def sample_world_def fresh_world_def forbidden_world_def
      broken_world_def zero_world_def body_includes_eq sample_marks)

lemma fresh_run:
  "snd (commentPr fresh_world summary always minComment) =
     SetOutput (utf16 ''comment-content'') summary #
     (if 65536 \<le> length (summary @ [10, 10] @ COMMENT_MARKER)
      then [Debug (utf16 ''The comment was too big for the GitHub API. Falling back on a minimum comment'')]
      else []) @
     [ListComments (utf16 ''octo'') (utf16 ''demo'') 7 1,
      CreateComment (utf16 ''octo'') (utf16 ''demo'') 7 (CommentBody summary minComment)]"
  by (simp add: commentPr_pass [OF gate_samples(1) sample_fields(2)] try_block_fst_snd sample_lookups)
     (simp add: fresh_world_def sample_world_def)

lemma throwing_lookup:
  "findCommentByMarker throwing_world COMMENT_MARKER =
     (Return (Some 42),
      [ListComments (utf16 ''octo'') (utf16 ''demo'') 7 1,
       ListComments (utf16 ''octo'') (utf16 ''demo'') 7 2])"
  by (simp add: findCommentByMarker_def throwing_world_def sample_world_def sample_pages_def
      body_includes_eq sample_marks)

lemma failing_runs:
  "snd (commentPr forbidden_world (utf16 ''report'') always (utf16 ''min'')) =
     [SetOutput (utf16 ''comment-content'') (utf16 ''report''),
      ListComments (utf16 ''octo'') (utf16 ''demo'') 7 1,
      CreateComment (utf16 ''octo'') (utf16 ''demo'') 7 (utf16 ''report'' @ [10, 10] @ COMMENT_MARKER),
      Warning (utf16 ''Unable to comment summary to pull-request, received error: Resource not accessible by integration'')]"
  "snd (commentPr broken_world (utf16 ''report'') always (utf16 ''min'')) =
     [SetOutput (utf16 ''comment-content'') (utf16 ''report''),
      ListComments (utf16 ''octo'') (utf16 ''demo'') 7 1,
      Warning (utf16 ''Unable to comment summary to pull-request, received error: Server Error'')]"
  by (simp_all add: commentPr_pass [OF gate_samples(1) sample_fields(4)]
      commentPr_pass [OF gate_samples(1) sample_fields(3)]
      try_block_fst_snd sample_lookups plain_body length_COMMENT_MARKER length_utf16)
     (simp_all add: forbidden_world_def fresh_world_def sample_world_def utf16_def)

lemma throwing_run:
  "snd (commentPr throwing_world (utf16 ''report'') always (utf16 ''min'')) =
     [SetOutput (utf16 ''comment-content'') (utf16 ''report''),
      ListComments (utf16 ''octo'') (utf16 ''demo'') 7 1,
      ListComments (utf16 ''octo'') (utf16 ''demo'') 7 2,
      UpdateComment (utf16 ''octo'') (utf16 ''demo'') 42 (utf16 ''report'' @ [10, 10] @ COMMENT_MARKER),
      Warning (utf16 ''Unable to comment summary to pull-request: Unexpected fatal error'')]"
  by (simp add: commentPr_pass [OF gate_samples(1) sample_fields(7)]
      try_block_fst_snd throwing_lookup plain_body length_COMMENT_MARKER length_utf16)
     (simp add: throwing_world_def sample_world_def)

section \<open>The policy gate\<close>

text \<open>
  C1. An invocation makes a network call (a request for the comment list, an update or
  a create) exactly when the policy is \<^verbatim>\<open>always\<close>, or \<^verbatim>\<open>on-failure\<close> with the exit code
  already set to failure, and the run is in a pull-request context; for every other
  combination of policy, exit code and context its trace holds no network call.
\<close>

theorem commentPr_network_iff_shouldComment:
  "(filter is_network (snd (commentPr w summary config minComment)) \<noteq> []) =
     shouldComment (comment_summary_in_pr config) (exitCode w = Some ExitCode_Failure)
       (pull_request w \<noteq> None)"
proof (cases "shouldComment (comment_summary_in_pr config) (exitCode w = Some ExitCode_Failure) True")
  case False
  then have "\<not> shouldComment (comment_summary_in_pr config) (exitCode w = Some ExitCode_Failure)
       (pull_request w \<noteq> None)"
    by (auto simp: shouldComment_def)
  with commentPr_policy_skip [OF False] show ?thesis by simp
next
  case True
  show ?thesis
  proof (cases "pull_request w")
    case None
    with True commentPr_context_skip [OF True None] show ?thesis
      by (simp add: shouldComment_def)
  next
    case (Some pr)
    with True have "shouldComment (comment_summary_in_pr config) (exitCode w = Some ExitCode_Failure)
       (pull_request w \<noteq> None)"
      by (simp add: shouldComment_def)
    with commentPr_pass [OF True Some] try_block_network [OF Some] show ?thesis
      by simp
  qed
qed

theorem commentPr_network_iff_shouldComment_witness:
  "shouldComment (utf16 ''always'') False True \<and>
   \<not> shouldComment (utf16 ''on-failure'') False True \<and>
   shouldComment (utf16 ''on-failure'') True True \<and>
   filter is_network (snd (commentPr sample_world (utf16 ''report'') always (utf16 ''min''))) \<noteq> [] \<and>
   filter is_network (snd (commentPr sample_world (utf16 ''report'') on_failure (utf16 ''min''))) = [] \<and>
   filter is_network (snd (commentPr push_world (utf16 ''report'') always (utf16 ''min''))) = []"
  using commentPr_network_iff_shouldComment [of sample_world "utf16 ''report''" always "utf16 ''min''"]
    commentPr_network_iff_shouldComment [of sample_world "utf16 ''report''" on_failure "utf16 ''min''"]
    commentPr_network_iff_shouldComment [of push_world "utf16 ''report''" always "utf16 ''min''"]
  by (simp add: shouldComment_def always_def on_failure_def sample_fields utf16_def)

text \<open>
  C2, as stated, fails: the policy check comes first in \<^verbatim>\<open>commentPr\<close>, so outside a
  pull request a policy that does not permit commenting ends the invocation before the
  context check, and no warning is emitted.
\<close>

theorem context_warning_counterexample:
  "pull_request push_world = None \<and>
   filter is_warning (snd (commentPr push_world (utf16 ''report'') never (utf16 ''min''))) = []"
  by (simp add: commentPr_policy_skip gate_samples sample_fields)

text \<open>
  C2, amended. A policy that does not permit commenting skips silently, whatever the
  context: the only effect is the output. When the policy permits commenting and the
  run is not in a pull-request context, the warning is emitted after the output and
  the invocation ends; neither case makes a network call.
\<close>

theorem commentPr_skips:
  "(\<not> shouldComment (comment_summary_in_pr config) (exitCode w = Some ExitCode_Failure) True \<longrightarrow>
      snd (commentPr w summary config minComment) =
        [SetOutput (utf16 ''comment-content'') summary]) \<and>
   (shouldComment (comment_summary_in_pr config) (exitCode w = Some ExitCode_Failure) True \<and>
    pull_request w = None \<longrightarrow>
      snd (commentPr w summary config minComment) =
        [SetOutput (utf16 ''comment-content'') summary,
         Warning (utf16 ''Not in the context of a pull request. Skipping comment creation.'')])"
  by (simp add: commentPr_policy_skip commentPr_context_skip)

theorem commentPr_skips_witness:
  "\<not> shouldComment (comment_summary_in_pr never) (exitCode push_world = Some ExitCode_Failure) True \<and>
   snd (commentPr push_world (utf16 ''report'') never (utf16 ''min'')) =
     [SetOutput (utf16 ''comment-content'') (utf16 ''report'')] \<and>
   shouldComment (comment_summary_in_pr always) (exitCode push_world = Some ExitCode_Failure) True \<and>
   pull_request push_world = None \<and>
   snd (commentPr push_world (utf16 ''report'') always (utf16 ''min'')) =
     [SetOutput (utf16 ''comment-content'') (utf16 ''report''),
      Warning (utf16 ''Not in the context of a pull request. Skipping comment creation.'')]"
  using commentPr_skips [of never push_world "utf16 ''report''" "utf16 ''min''"]
    commentPr_skips [of always push_world "utf16 ''report''" "utf16 ''min''"]
  by (simp add: gate_samples sample_fields)

section \<open>The \<^verbatim>\<open>comment-content\<close> output\<close>

text \<open>
  C5, as stated, fails: \<^verbatim>\<open>core.setOutput\<close> is the first statement of \<^verbatim>\<open>commentPr\<close>, ahead
  of both checks, so the output is set on an invocation that the gate rejects.
\<close>

theorem output_before_gate_counterexample:
  "\<not> shouldComment (comment_summary_in_pr on_failure) (exitCode sample_world = Some ExitCode_Failure)
       (pull_request sample_world \<noteq> None) \<and>
   filter is_output (snd (commentPr sample_world (utf16 ''report'') on_failure (utf16 ''min''))) =
     [SetOutput (utf16 ''comment-content'') (utf16 ''report'')]"
proof -
  have gate: "\<not> shouldComment (comment_summary_in_pr on_failure)
      (exitCode sample_world = Some ExitCode_Failure) True"
    by (simp add: gate_samples sample_fields)
  then have "\<not> shouldComment (comment_summary_in_pr on_failure)
      (exitCode sample_world = Some ExitCode_Failure) (pull_request sample_world \<noteq> None)"
    by (simp add: sample_fields)
  with commentPr_policy_skip [OF gate] show ?thesis by simp
qed

text \<open>
  C5, amended. Every invocation sets the output exactly once, as its first effect,
  before the policy and context checks and whatever they decide.
\<close>

theorem commentPr_output_once:
  "\<exists>evs. snd (commentPr w summary config minComment) =
       SetOutput (utf16 ''comment-content'') summary # evs \<and>
     filter is_output evs = []"
proof (cases "shouldComment (comment_summary_in_pr config) (exitCode w = Some ExitCode_Failure) True")
  case False
  from commentPr_policy_skip [OF False] show ?thesis by simp
next
  case True
  show ?thesis
  proof (cases "pull_request w")
    case None
    from commentPr_context_skip [OF True None] show ?thesis by simp
  next
    case (Some pr)
    from commentPr_pass [OF True Some] show ?thesis
      by (simp add: try_block_quiet split: outcome.splits)
  qed
qed

theorem commentPr_output_once_witness:
  "\<exists>evs. snd (commentPr sample_world (utf16 ''report'') never (utf16 ''min'')) =
       SetOutput (utf16 ''comment-content'') (utf16 ''report'') # evs \<and>
     filter is_output evs = []"
  using commentPr_output_once [of sample_world "utf16 ''report''" never "utf16 ''min''"] .

lemma commentPr_outputs:
  "filter is_output (snd (commentPr w summary config minComment)) =
     [SetOutput (utf16 ''comment-content'') summary]"
proof (cases "shouldComment (comment_summary_in_pr config) (exitCode w = Some ExitCode_Failure) True")
  case False
  from commentPr_policy_skip [OF False] show ?thesis by simp
next
  case True
  show ?thesis
  proof (cases "pull_request w")
    case None
    from commentPr_context_skip [OF True None] show ?thesis by simp
  next
    case (Some pr)
    from commentPr_pass [OF True Some] show ?thesis
      by (simp add: try_block_quiet split: outcome.splits)
  qed
qed

text \<open>
  C6. Whenever the output is set, its name is \<^verbatim>\<open>comment-content\<close> and its value is the
  rendered body as \<^verbatim>\<open>summary.stringify()\<close> gave it, without the marker; it is never the
  fallback body, also when the body sent to the network is the fallback.
\<close>

theorem output_is_rendered_body:
  assumes "SetOutput name v \<in> set (snd (commentPr w summary config minComment))"
  shows "name = utf16 ''comment-content'' \<and> v = summary"
proof -
  from assms
  have "SetOutput name v \<in> set (filter is_output (snd (commentPr w summary config minComment)))"
    by simp
  then show ?thesis
    unfolding commentPr_outputs by simp
qed

theorem output_is_rendered_body_witness:
  "SetOutput (utf16 ''comment-content'') long_report
     \<in> set (snd (commentPr fresh_world long_report always (utf16 ''min''))) \<and>
   CreateComment (utf16 ''octo'') (utf16 ''demo'') 7 (utf16 ''min'' @ [10, 10] @ COMMENT_MARKER)
     \<in> set (snd (commentPr fresh_world long_report always (utf16 ''min''))) \<and>
   utf16 ''comment-content'' = utf16 ''comment-content'' \<and> long_report = long_report"
proof -
  have a: "SetOutput (utf16 ''comment-content'') long_report
     \<in> set (snd (commentPr fresh_world long_report always (utf16 ''min'')))"
    by (simp add: fresh_run)
  have b: "CreateComment (utf16 ''octo'') (utf16 ''demo'') 7 (utf16 ''min'' @ [10, 10] @ COMMENT_MARKER)
     \<in> set (snd (commentPr fresh_world long_report always (utf16 ''min'')))"
    by (simp add: fresh_run sample_bodies)
  from output_is_rendered_body [OF a] a b show ?thesis by simp
qed

section \<open>The submitted body\<close>

lemma commentPr_writes:
  assumes "shouldComment (comment_summary_in_pr config) (exitCode w = Some ExitCode_Failure) True"
    and "pull_request w = Some pr"
  shows "filter is_write (snd (commentPr w summary config minComment)) =
     (case fst (findCommentByMarker w COMMENT_MARKER) of
        Raise e \<Rightarrow> []
      | Return None \<Rightarrow>
          [CreateComment (owner w) (repo w) (number pr) (CommentBody summary minComment)]
      | Return (Some i) \<Rightarrow>
          if i = 0
          then [CreateComment (owner w) (repo w) (number pr) (CommentBody summary minComment)]
          else [UpdateComment (owner w) (repo w) i (CommentBody summary minComment)])"
  by (simp add: commentPr_pass [OF assms] try_block_writes split: outcome.splits)

lemma commentPr_write_cases:
  assumes "ev \<in> set (snd (commentPr w summary config minComment))" and "is_write ev"
  shows "\<exists>ow rp i. ev = UpdateComment ow rp i (CommentBody summary minComment) \<or>
                   ev = CreateComment ow rp i (CommentBody summary minComment)"
proof (cases "shouldComment (comment_summary_in_pr config) (exitCode w = Some ExitCode_Failure) True")
  case False
  with assms commentPr_policy_skip [OF False] show ?thesis by auto
next
  case True
  show ?thesis
  proof (cases "pull_request w")
    case None
    with assms commentPr_context_skip [OF True None] show ?thesis by auto
  next
    case (Some pr)
    from assms have "ev \<in> set (filter is_write (snd (commentPr w summary config minComment)))"
      by simp
    then show ?thesis
      unfolding commentPr_writes [OF True Some]
      by (auto split: outcome.splits option.splits if_splits)
  qed
qed

text \<open>
  C3. The body of every update or create request is the rendered body, two line feeds
  and the marker, unless that string has 65536 code units or more, in which case it is
  the fallback body, two line feeds and the marker. It is a function of the two bodies
  alone: nothing the remote API answers enters it.
\<close>

theorem submitted_body:
  assumes "UpdateComment ow rp i b \<in> set (snd (commentPr w summary config minComment)) \<or>
           CreateComment ow rp i b \<in> set (snd (commentPr w summary config minComment))"
  shows "b = CommentBody summary minComment"
  using assms commentPr_write_cases [of "UpdateComment ow rp i b" w summary config minComment]
    commentPr_write_cases [of "CreateComment ow rp i b" w summary config minComment]
  by auto

theorem submitted_body_witness:
  "CreateComment (utf16 ''octo'') (utf16 ''demo'') 7 (utf16 ''min'' @ [10, 10] @ COMMENT_MARKER)
     \<in> set (snd (commentPr fresh_world boundary_report always (utf16 ''min''))) \<and>
   utf16 ''min'' @ [10, 10] @ COMMENT_MARKER = CommentBody boundary_report (utf16 ''min'') \<and>
   length (boundary_report @ [10, 10] @ COMMENT_MARKER) = 65536 \<and>
   CreateComment (utf16 ''octo'') (utf16 ''demo'') 7 (short_report @ [10, 10] @ COMMENT_MARKER)
     \<in> set (snd (commentPr fresh_world short_report always (utf16 ''min''))) \<and>
   short_report @ [10, 10] @ COMMENT_MARKER = CommentBody short_report (utf16 ''min'') \<and>
   length (short_report @ [10, 10] @ COMMENT_MARKER) = 65535"
proof -
  have a: "CreateComment (utf16 ''octo'') (utf16 ''demo'') 7 (utf16 ''min'' @ [10, 10] @ COMMENT_MARKER)
     \<in> set (snd (commentPr fresh_world boundary_report always (utf16 ''min'')))"
    by (simp add: fresh_run sample_bodies)
  have b: "CreateComment (utf16 ''octo'') (utf16 ''demo'') 7 (short_report @ [10, 10] @ COMMENT_MARKER)
     \<in> set (snd (commentPr fresh_world short_report always (utf16 ''min'')))"
    by (simp add: fresh_run sample_bodies)
  have c: "utf16 ''min'' @ [10, 10] @ COMMENT_MARKER = CommentBody boundary_report (utf16 ''min'')"
    using submitted_body [OF disjI2, OF a] .
  have d: "short_report @ [10, 10] @ COMMENT_MARKER = CommentBody short_report (utf16 ''min'')"
    using submitted_body [OF disjI2, OF b] .
  note l = report_lengths(1,2)
  show ?thesis by (intro conjI; fact)
qed

section \<open>Update or create\<close>

text \<open>
  C7, as stated, fails twice. When the lookup raises (here the first request for the
  comment list is rejected) the \<^verbatim>\<open>catch\<close> clause takes over and no write is made at
  all. When the lookup returns the id 0 of a marked comment, the id is falsy and the
  write is a create, not an update.
\<close>

theorem write_exclusivity_counterexample:
  "shouldComment (comment_summary_in_pr always) (exitCode broken_world = Some ExitCode_Failure)
     (pull_request broken_world \<noteq> None) \<and>
   filter is_write (snd (commentPr broken_world (utf16 ''report'') always (utf16 ''min''))) = [] \<and>
   shouldComment (comment_summary_in_pr always) (exitCode zero_world = Some ExitCode_Failure)
     (pull_request zero_world \<noteq> None) \<and>
   fst (findCommentByMarker zero_world COMMENT_MARKER) = Return (Some 0) \<and>
   filter is_write (snd (commentPr zero_world (utf16 ''report'') always (utf16 ''min''))) =
     [CreateComment (utf16 ''octo'') (utf16 ''demo'') 7
        (utf16 ''report'' @ [10, 10] @ COMMENT_MARKER)]"
  by (simp add: commentPr_writes [OF gate_samples(1) sample_fields(3)]
      commentPr_writes [OF gate_samples(1) sample_fields(5)] sample_lookups sample_fields
      gate_samples plain_body)
     (simp add: zero_world_def sample_world_def)

text \<open>
  C7, amended. On an invocation that passes both checks and whose lookup returns
  without raising, exactly one write is made, never both and never none: an update of
  the comment found when the lookup returned a non-zero id, a create on the pull
  request when it returned absent or the id 0. When the lookup raises, no write is
  made: the value raised is caught, \<^verbatim>\<open>commentPr\<close> returns normally and the only warning
  of the invocation is the one the \<^verbatim>\<open>catch\<close> clause gives for that value.
\<close>

theorem one_write_after_lookup:
  assumes "shouldComment (comment_summary_in_pr config) (exitCode w = Some ExitCode_Failure) True"
    and "pull_request w = Some pr"
  shows
    "(\<forall>i. fst (findCommentByMarker w COMMENT_MARKER) = Return (Some i) \<and> i \<noteq> 0 \<longrightarrow>
        filter is_write (snd (commentPr w summary config minComment)) =
          [UpdateComment (owner w) (repo w) i (CommentBody summary minComment)]) \<and>
     (fst (findCommentByMarker w COMMENT_MARKER) = Return None \<or>
      fst (findCommentByMarker w COMMENT_MARKER) = Return (Some 0) \<longrightarrow>
        filter is_write (snd (commentPr w summary config minComment)) =
          [CreateComment (owner w) (repo w) (number pr) (CommentBody summary minComment)]) \<and>
     (\<forall>e. fst (findCommentByMarker w COMMENT_MARKER) = Raise e \<longrightarrow>
        filter is_write (snd (commentPr w summary config minComment)) = [] \<and>
        fst (commentPr w summary config minComment) = Return () \<and>
        filter is_warning (snd (commentPr w summary config minComment)) =
          [Warning (catch_warning e)])"
proof (intro conjI allI impI)
  fix i
  assume "fst (findCommentByMarker w COMMENT_MARKER) = Return (Some i) \<and> i \<noteq> 0"
  then show "filter is_write (snd (commentPr w summary config minComment)) =
      [UpdateComment (owner w) (repo w) i (CommentBody summary minComment)]"
    by (simp add: commentPr_writes [OF assms])
next
  assume "fst (findCommentByMarker w COMMENT_MARKER) = Return None \<or>
      fst (findCommentByMarker w COMMENT_MARKER) = Return (Some 0)"
  then show "filter is_write (snd (commentPr w summary config minComment)) =
      [CreateComment (owner w) (repo w) (number pr) (CommentBody summary minComment)]"
    by (auto simp: commentPr_writes [OF assms])
next
  fix e
  assume r: "fst (findCommentByMarker w COMMENT_MARKER) = Raise e"
  then show "filter is_write (snd (commentPr w summary config minComment)) = []"
    by (simp add: commentPr_writes [OF assms])
  show "fst (commentPr w summary config minComment) = Return ()"
    by (rule commentPr_returns)
  from r have "fst (try_block w pr (CommentBody summary minComment)) = Raise e"
    by (simp add: try_block_result)
  then show "filter is_warning (snd (commentPr w summary config minComment)) =
      [Warning (catch_warning e)]"
    by (simp add: commentPr_pass [OF assms] try_block_quiet)
qed

theorem one_write_after_lookup_witness:
  "shouldComment (comment_summary_in_pr always) (exitCode sample_world = Some ExitCode_Failure) True \<and>
   pull_request sample_world = Some \<lparr>number = 7\<rparr> \<and>
   fst (findCommentByMarker sample_world COMMENT_MARKER) = Return (Some 42) \<and>
   filter is_write (snd (commentPr sample_world (utf16 ''report'') always (utf16 ''min''))) =
     [UpdateComment (utf16 ''octo'') (utf16 ''demo'') 42
        (utf16 ''report'' @ [10, 10] @ COMMENT_MARKER)] \<and>
   pull_request fresh_world = Some \<lparr>number = 7\<rparr> \<and>
   fst (findCommentByMarker fresh_world COMMENT_MARKER) = Return None \<and>
   filter is_write (snd (commentPr fresh_world (utf16 ''report'') always (utf16 ''min''))) =
     [CreateComment (utf16 ''octo'') (utf16 ''demo'') 7
        (utf16 ''report'' @ [10, 10] @ COMMENT_MARKER)] \<and>
   pull_request zero_world = Some \<lparr>number = 7\<rparr> \<and>
   fst (findCommentByMarker zero_world COMMENT_MARKER) = Return (Some 0) \<and>
   filter is_write (snd (commentPr zero_world (utf16 ''report'') always (utf16 ''min''))) =
     [CreateComment (utf16 ''octo'') (utf16 ''demo'') 7
        (utf16 ''report'' @ [10, 10] @ COMMENT_MARKER)] \<and>
   pull_request broken_world = Some \<lparr>number = 7\<rparr> \<and>
   fst (findCommentByMarker broken_world COMMENT_MARKER) =
     Raise (HttpError 500 (utf16 ''Server Error'')) \<and>
   filter is_write (snd (commentPr broken_world (utf16 ''report'') always (utf16 ''min''))) = [] \<and>
   fst (commentPr broken_world (utf16 ''report'') always (utf16 ''min'')) = Return () \<and>
   filter is_warning (snd (commentPr broken_world (utf16 ''report'') always (utf16 ''min''))) =
     [Warning (utf16 ''Unable to comment summary to pull-request, received error: Server Error'')]"
proof -
  have l: "fst (findCommentByMarker sample_world COMMENT_MARKER) = Return (Some 42)"
    "fst (findCommentByMarker fresh_world COMMENT_MARKER) = Return None"
    "fst (findCommentByMarker zero_world COMMENT_MARKER) = Return (Some 0)"
    "fst (findCommentByMarker broken_world COMMENT_MARKER) =
       Raise (HttpError 500 (utf16 ''Server Error''))"
    by (simp_all add: sample_lookup sample_lookups)
  have f: "owner sample_world = utf16 ''octo''" "repo sample_world = utf16 ''demo''"
    "owner fresh_world = utf16 ''octo''" "repo fresh_world = utf16 ''demo''"
    "owner zero_world = utf16 ''octo''" "repo zero_world = utf16 ''demo''"
    by (simp_all add: sample_world_def fresh_world_def zero_world_def)
  from
    one_write_after_lookup [OF gate_samples(1) sample_fields(1),
      where summary = "utf16 ''report''" and minComment = "utf16 ''min''"]
    one_write_after_lookup [OF gate_samples(1) sample_fields(2),
      where summary = "utf16 ''report''" and minComment = "utf16 ''min''"]
    one_write_after_lookup [OF gate_samples(1) sample_fields(5),
      where summary = "utf16 ''report''" and minComment = "utf16 ''min''"]
    one_write_after_lookup [OF gate_samples(1) sample_fields(3),
      where summary = "utf16 ''report''" and minComment = "utf16 ''min''"]
  show ?thesis
    by (simp add: l f sample_fields gate_samples plain_body) (simp add: utf16_def)
qed

text \<open>
  C10. The decision tests the truthiness of the id: when the lookup returns the id 0
  (of an existing marked comment), the only write is a create on the pull request and
  that comment is not updated.
\<close>

theorem id_zero_creates:
  assumes "shouldComment (comment_summary_in_pr config) (exitCode w = Some ExitCode_Failure) True"
    and "pull_request w = Some pr"
    and "fst (findCommentByMarker w COMMENT_MARKER) = Return (Some 0)"
  shows "filter is_write (snd (commentPr w summary config minComment)) =
     [CreateComment (owner w) (repo w) (number pr) (CommentBody summary minComment)]"
  using assms(3) by (simp add: commentPr_writes [OF assms(1,2)])

theorem id_zero_creates_witness:
  "shouldComment (comment_summary_in_pr always) (exitCode zero_world = Some ExitCode_Failure) True \<and>
   pull_request zero_world = Some \<lparr>number = 7\<rparr> \<and>
   listComments zero_world = [Page [\<lparr>comment_id = 0, body = Some marked_body\<rparr>]] \<and>
   has_marker COMMENT_MARKER \<lparr>comment_id = 0, body = Some marked_body\<rparr> \<and>
   fst (findCommentByMarker zero_world COMMENT_MARKER) = Return (Some 0) \<and>
   filter is_write (snd (commentPr zero_world (utf16 ''report'') always (utf16 ''min''))) =
     [CreateComment (utf16 ''octo'') (utf16 ''demo'') 7
        (utf16 ''report'' @ [10, 10] @ COMMENT_MARKER)]"
proof -
  have l: "fst (findCommentByMarker zero_world COMMENT_MARKER) = Return (Some 0)"
    by (simp add: sample_lookups)
  from id_zero_creates [OF gate_samples(1) sample_fields(5) l,
      where summary = "utf16 ''report''" and minComment = "utf16 ''min''"] l
  show ?thesis
    by (simp add: gate_samples sample_fields sample_marks plain_body)
       (simp add: zero_world_def sample_world_def)
qed

section \<open>Failure handling\<close>

text \<open>
  Whatever the lookup or the write raises, \<^verbatim>\<open>commentPr\<close> returns normally, and the last
  effect is the only warning of the invocation, chosen by the \<^verbatim>\<open>catch\<close> clause.
\<close>

lemma raised_value_warning:
  assumes "shouldComment (comment_summary_in_pr config) (exitCode w = Some ExitCode_Failure) True"
    and "pull_request w = Some pr"
    and "fst (findCommentByMarker w COMMENT_MARKER) = Raise e \<or>
         (\<exists>i. i \<noteq> 0 \<and> fst (findCommentByMarker w COMMENT_MARKER) = Return (Some i) \<and>
              updateComment w = Some e) \<or>
         ((fst (findCommentByMarker w COMMENT_MARKER) = Return None \<or>
           fst (findCommentByMarker w COMMENT_MARKER) = Return (Some 0)) \<and>
          createComment w = Some e)"
  shows "fst (commentPr w summary config minComment) = Return () \<and>
     (\<exists>evs. snd (commentPr w summary config minComment) = evs @ [Warning (catch_warning e)] \<and>
        filter is_warning evs = [])"
proof -
  from assms(3) have r: "fst (try_block w pr (CommentBody summary minComment)) = Raise e"
    by (auto simp: try_block_result)
  let ?pre = "SetOutput (utf16 ''comment-content'') summary #
      (if 65536 \<le> length (summary @ [10, 10] @ COMMENT_MARKER)
       then [Debug (utf16 ''The comment was too big for the GitHub API. Falling back on a minimum comment'')]
       else []) @
      snd (try_block w pr (CommentBody summary minComment))"
  have t: "snd (commentPr w summary config minComment) = ?pre @ [Warning (catch_warning e)]"
    by (simp add: commentPr_pass [OF assms(1,2)] r)
  have q: "filter is_warning ?pre = []"
    by (simp add: try_block_quiet)
  from t q show ?thesis
    unfolding commentPr_returns by blast
qed

text \<open>
  The warning for an error status of the server is the one that quotes the message,
  for every status: the permission warning is kept for instances of the imported
  \<^verbatim>\<open>RequestError\<close> class, and the client's errors are none.
\<close>

lemma http_error_warning:
  "catch_warning (HttpError status message) =
     utf16 ''Unable to comment summary to pull-request, received error: '' @ message"
  by simp

text \<open>
  C8 fails on the code where the claim speaks of an API error with status 403. Inside
  pull request 7, with the policy \<^verbatim>\<open>always\<close> and no comment yet, the server answers the
  create request with 403. The invocation returns normally, as the claim says, but its
  warning is the one that quotes the error's message; the warning about the
  \<^verbatim>\<open>pull-requests: write\<close> permission, which lines 73 to 76 mean to give, is not emitted.
\<close>

theorem http_403_quotes_message:
  "createComment forbidden_world =
     Some (HttpError 403 (utf16 ''Resource not accessible by integration'')) \<and>
   commentPr forbidden_world (utf16 ''report'') always (utf16 ''min'') =
     (Return (),
      [SetOutput (utf16 ''comment-content'') (utf16 ''report''),
       ListComments (utf16 ''octo'') (utf16 ''demo'') 7 1,
       CreateComment (utf16 ''octo'') (utf16 ''demo'') 7 (utf16 ''report'' @ [10, 10] @ COMMENT_MARKER),
       Warning (utf16 ''Unable to comment summary to pull-request, received error: Resource not accessible by integration'')]) \<and>
   Warning (utf16 ''Unable to write summary to pull-request. Make sure you are giving this workflow the permission 'pull-requests: write'.'')
     \<notin> set (snd (commentPr forbidden_world (utf16 ''report'') always (utf16 ''min'')))"
proof -
  have c: "createComment forbidden_world =
      Some (HttpError 403 (utf16 ''Resource not accessible by integration''))"
    by (simp add: forbidden_world_def fresh_world_def sample_world_def)
  have r: "commentPr forbidden_world (utf16 ''report'') always (utf16 ''min'') =
      (Return (), snd (commentPr forbidden_world (utf16 ''report'') always (utf16 ''min'')))"
    by (simp add: prod_eq_iff commentPr_returns)
  have n: "utf16 ''Unable to write summary to pull-request. Make sure you are giving this workflow the permission 'pull-requests: write'.'' \<noteq>
      utf16 ''Unable to comment summary to pull-request, received error: Resource not accessible by integration''"
    by (simp add: utf16_def)
  from c r n show ?thesis
    by (simp add: failing_runs(1))
qed

end
